theory Spec2Isabelle
  imports Complex_Main "HOL-Library.Sublist"
begin

section \<open>JavaScript values used by the payment and wallet utilities\<close>

subsection \<open>Strings\<close>

text \<open>
  A JavaScript string is modelled by the bytes of its UTF-8 encoding, so that the
  Spanish messages of the source can be written exactly. \<open>startsWith\<close> and
  \<open>includes\<close> with ASCII arguments agree on code units and on UTF-8 bytes.
  \<open>.length\<close> counts UTF-16 code units: a byte below \<open>0x80\<close> or a lead byte of a two- or
  three-byte sequence is one unit, a continuation byte none, the lead byte of a
  four-byte sequence two (a surrogate pair).
\<close>

definition startsWith :: "string \<Rightarrow> string \<Rightarrow> bool" where
  "startsWith s p = prefix p s"

definition includes_str :: "string \<Rightarrow> string \<Rightarrow> bool" where
  "includes_str s n = sublist n s"

definition utf16_units :: "char \<Rightarrow> nat" where
  "utf16_units c =
     (let b = (of_char c :: nat)
      in if b < 128 then 1 else if b < 192 then 0 else if b < 240 then 1 else 2)"

definition js_length :: "string \<Rightarrow> nat" where
  "js_length s = sum_list (map utf16_units s)"

text \<open>
  \<open>toLowerCase\<close> is modelled on the ASCII letters. The source only searches the
  lowered message for ASCII words, none of which contains \<open>k\<close> or ends in \<open>i\<close>; the two
  characters outside ASCII whose lower case contains an ASCII letter (the Kelvin sign and
  the dotted capital I) therefore cannot change the outcome of any such search.
\<close>

definition lower_char :: "char \<Rightarrow> char" where
  "lower_char c =
     (let b = (of_char c :: nat)
      in if 65 \<le> b \<and> b \<le> 90 then char_of (b + 32) else c)"

definition toLowerCase :: "string \<Rightarrow> string" where
  "toLowerCase s = map lower_char s"

subsection \<open>Numbers\<close>

text \<open>
  The result of \<open>parseFloat\<close>: a double is \<open>NaN\<close>, an infinity or a rational number.
  The source only asks \<open>isNaN(amount)\<close> and \<open>amount <= 0\<close>.
\<close>

datatype number = NaN | NegInfinity | Finite rat | PosInfinity

fun isNaN :: "number \<Rightarrow> bool" where
  "isNaN NaN = True"
| "isNaN _ = False"

fun le_zero :: "number \<Rightarrow> bool" where
  "le_zero NaN = False"
| "le_zero NegInfinity = True"
| "le_zero (Finite q) = (q \<le> 0)"
| "le_zero PosInfinity = False"

subsection \<open>Thrown values\<close>

text \<open>
  What a \<open>catch\<close> clause receives, typed \<open>unknown\<close>:
  \<^item> \<open>JsError m\<close>: an \<open>Error\<close> instance whose message is the string \<open>m\<close>;
  \<^item> \<open>JsValue t s\<close>: a value that is not an \<open>Error\<close>, with truthiness \<open>t\<close> (\<open>!error\<close>) and
    string conversion \<open>s\<close> (\<open>String(error)\<close>);
  \<^item> \<open>JsErrorNonString tm\<close>: an \<open>Error\<close> instance whose message is not a string and has no
    \<open>includes\<close> method (\<open>undefined\<close>, a number), so that a method call on the message
    raises a \<open>TypeError\<close>, whose message is \<open>tm\<close>;
  \<^item> \<open>JsUnconvertible tm\<close>: an object that is not an \<open>Error\<close> and that \<open>String(error)\<close>
    cannot convert (\<open>Object.create(null)\<close>): the conversion raises a \<open>TypeError\<close>, whose
    message is \<open>tm\<close>.
  Objects are truthy. A message that is not a string but has an \<open>includes\<close> method (an
  array) is not modelled.
\<close>

datatype thrown =
  JsError string | JsValue bool string | JsErrorNonString string | JsUnconvertible string

fun truthy :: "thrown \<Rightarrow> bool" where
  "truthy (JsError m) = True"
| "truthy (JsValue t s) = t"
| "truthy (JsErrorNonString tm) = True"
| "truthy (JsUnconvertible tm) = True"

text \<open>The thrown values on which no operation of the source raises an error of its
  own.\<close>

fun plain :: "thrown \<Rightarrow> bool" where
  "plain (JsError m) = True"
| "plain (JsValue t s) = True"
| "plain (JsErrorNonString tm) = False"
| "plain (JsUnconvertible tm) = False"

section \<open>lib/wallet-utils.ts\<close>

datatype walletClientType = waap | external

record WaaPWallet =
  address :: string
  walletClientType :: walletClientType
  chainId :: string
  connected :: bool

text \<open>\<open>wallet?.address\<close> used as a condition: the wallet was found and its address is
  not the empty string.\<close>

fun has_address :: "WaaPWallet option \<Rightarrow> bool" where
  "has_address None = False"
| "has_address (Some w) = (address w \<noteq> [])"

definition getEOAAddress :: "WaaPWallet list \<Rightarrow> string option" where
  "getEOAAddress wallets =
     (let externalWallet = find (\<lambda>wallet. walletClientType wallet = external) wallets
      in if has_address externalWallet then map_option address externalWallet
         else let waapWallet = find (\<lambda>wallet. walletClientType wallet = waap) wallets
              in if has_address waapWallet then map_option address waapWallet
                 else None)"

definition getEOAWallet :: "WaaPWallet list \<Rightarrow> WaaPWallet option" where
  "getEOAWallet wallets =
     (let externalWallet = find (\<lambda>wallet. walletClientType wallet = external) wallets
      in if externalWallet \<noteq> None then externalWallet
         else let waapWallet = find (\<lambda>wallet. walletClientType wallet = waap) wallets
              in if waapWallet \<noteq> None then waapWallet
                 else None)"

text \<open>The type \<open>`0x${string}`\<close> of the \<open>address\<close> field.\<close>

definition well_typed :: "WaaPWallet \<Rightarrow> bool" where
  "well_typed w = startsWith (address w) ''0x''"

section \<open>The payment utilities\<close>

datatype currency = CELO | USDT | USDC | cUSD | cEUR | cREAL | cCOP | PSY | MOT | cCAD

fun currency_name :: "currency \<Rightarrow> string" where
  "currency_name CELO = ''CELO''"
| "currency_name USDT = ''USDT''"
| "currency_name USDC = ''USDC''"
| "currency_name cUSD = ''cUSD''"
| "currency_name cEUR = ''cEUR''"
| "currency_name cREAL = ''cREAL''"
| "currency_name cCOP = ''cCOP''"
| "currency_name PSY = ''PSY''"
| "currency_name MOT = ''MOT''"
| "currency_name cCAD = ''cCAD''"

record PaymentParams =
  p_from :: string
  p_to :: string
  amount :: string
  currency :: currency

record PaymentResult =
  success :: bool
  transactionHash :: "string option"
  error :: "string option"
  explorerUrl :: "string option"

text \<open>One element of the \<open>calls\<close> array handed to \<open>sendUserOperation\<close>.\<close>

record call =
  call_to :: string
  call_value :: int
  call_data :: string

text \<open>
  The injected kernel client. Each method is awaited at most once per payment, so its
  behaviour is a function from the argument to a rejection (\<open>Inl\<close>) or a resolved value.
  The resolved value of \<open>waitForUserOperationReceipt\<close> is read only through
  \<open>receipt?.receipt?.transactionHash\<close>; \<open>None\<close> stands for \<open>undefined\<close>.
\<close>

record KernelAccountClient =
  sendUserOperation :: "call list \<Rightarrow> thrown + string"
  waitForUserOperationReceipt :: "string \<Rightarrow> thrown + string option"

text \<open>
  What the source imports and does not define: the built-in \<open>parseFloat\<close>; viem's
  \<open>parseEther\<close>, \<open>parseUnits\<close> and \<open>encodeFunctionData\<close> (the latter always called with
  the ERC-20 \<open>transfer(address,uint256)\<close> ABI, so its arguments here are the recipient
  and the amount), each of which may throw; and, from \<open>./celo\<close>, the token table
  \<open>CELO_STABLE_TOKENS\<close> and \<open>getCeloExplorerUrl\<close>. They are parameters of the model.
\<close>

record library =
  parseFloat :: "string \<Rightarrow> number"
  parseEther :: "string \<Rightarrow> thrown + int"
  parseUnits :: "string \<Rightarrow> nat \<Rightarrow> thrown + int"
  encodeFunctionData :: "string \<Rightarrow> int \<Rightarrow> thrown + string"
  CELO_STABLE_TOKENS :: "currency \<Rightarrow> string option"
  getCeloExplorerUrl :: "string \<Rightarrow> string \<Rightarrow> string"

text \<open>The network calls a run makes, in order.\<close>

datatype event = SendUserOperation "call list" | WaitForUserOperationReceipt string

subsection \<open>Messages\<close>

definition o_acute :: string where "o_acute = [CHR 0xC3, CHR 0xB3]"
definition a_acute :: string where "a_acute = [CHR 0xC3, CHR 0xA1]"
definition u_acute :: string where "u_acute = [CHR 0xC3, CHR 0xBA]"
definition e_acute :: string where "e_acute = [CHR 0xC3, CHR 0xA9]"
definition i_acute :: string where "i_acute = [CHR 0xC3, CHR 0xAD]"
definition warning_sign :: string where
  "warning_sign = [CHR 0xE2, CHR 0x9A, CHR 0xA0, CHR 0xEF, CHR 0xB8, CHR 0x8F]"
definition newline :: string where "newline = [CHR 0x0A]"

definition msg_invalid_address :: string where
  "msg_invalid_address = ''Direcci'' @ o_acute @ ''n de destino inv'' @ a_acute @ ''lida''"

definition msg_invalid_amount :: string where
  "msg_invalid_amount =
     ''Monto inv'' @ a_acute @ ''lido. Debe ser un n'' @ u_acute @ ''mero mayor a 0''"

definition msg_not_configured :: "currency \<Rightarrow> string" where
  "msg_not_configured c =
     ''Direcci'' @ o_acute @ ''n del contrato para '' @ currency_name c
     @ '' no configurada. Por favor, actualiza lib/celo.ts con la direcci'' @ o_acute
     @ ''n correcta.''"

definition msg_no_hash :: string where
  "msg_no_hash =
     ''No se encontr'' @ o_acute @ '' el hash de transacci'' @ o_acute @ ''n en el recibo''"

definition msg_response_processing :: string where
  "msg_response_processing =
     ''La transacci'' @ o_acute
     @ ''n fue enviada pero hubo un error al procesar la respuesta. ''
     @ ''Por favor verifica en el explorador de blockchain.''"

definition msg_unknown :: string where
  "msg_unknown = ''Error desconocido''"

definition funding_guidance :: "string \<Rightarrow> string" where
  "funding_guidance errorMessage =
     errorMessage @ ''. Aseg'' @ u_acute
     @ ''rate de tener fondos suficientes y que el paymaster est'' @ e_acute
     @ '' financiado.''"

definition msg_pimlico_limit :: string where
  "msg_pimlico_limit =
     warning_sign @ '' El paymaster de Pimlico tiene un l'' @ i_acute @ ''mite mensual.''
     @ newline @ newline
     @ ''Por favor verifica tu plan en el dashboard de Pimlico.'' @ newline @ newline
     @ ''Opciones:'' @ newline
     @ ''1. Verificar fondos del paymaster en Pimlico dashboard'' @ newline
     @ ''2. Actualizar plan si es necesario'' @ newline
     @ ''3. Usar Alfajores (testnet) para desarrollo''"

definition failure :: "string \<Rightarrow> PaymentResult" where
  "failure msg =
     \<lparr>success = False, transactionHash = None, error = Some msg, explorerUrl = None\<rparr>"

subsection \<open>isEncodingError\<close>

text \<open>
  \<open>Inl\<close> is the \<open>TypeError\<close> that \<open>String(error)\<close> or \<open>errorStr.includes\<close> raises (lines
  183--184); \<open>signature\<close> is the disjunction of lines 184--186.
\<close>

definition signature :: "string \<Rightarrow> bool" where
  "signature errorStr =
     (includes_str errorStr ''invalid codepoint''
      \<or> includes_str errorStr ''missing continuation byte''
      \<or> includes_str errorStr ''strings/5.7.0'')"

definition isEncodingError :: "thrown \<Rightarrow> thrown + bool" where
  "isEncodingError err =
     (if \<not> truthy err then Inr False
      else (case err of
              JsError m \<Rightarrow> Inr (signature m)
            | JsValue t s \<Rightarrow> Inr (signature s)
            | JsErrorNonString tm \<Rightarrow> Inl (JsError tm)
            | JsUnconvertible tm \<Rightarrow> Inl (JsError tm)))"

subsection \<open>sendPaymentWithKernel\<close>

text \<open>
  The receipt wait with its inner \<open>try\<close>/\<open>catch\<close>, written twice in the source (lines
  270--300 for CELO, 381--411 for tokens) with the same text. \<open>Inl\<close> is a value thrown
  to the enclosing \<open>catch\<close>: the receipt error thrown again, the \<open>TypeError\<close> that
  \<open>isEncodingError\<close> raised inside the inner \<open>catch\<close>, or the error of line 291.
\<close>

definition awaitReceipt ::
  "'a library_scheme \<Rightarrow> KernelAccountClient \<Rightarrow> string \<Rightarrow> thrown + PaymentResult" where
  "awaitReceipt env kernelClient userOpHash =
     (case waitForUserOperationReceipt kernelClient userOpHash of
        Inl receiptError \<Rightarrow>
          (case isEncodingError receiptError of
             Inl typeError \<Rightarrow> Inl typeError
           | Inr True \<Rightarrow>
               Inr \<lparr>success = True, transactionHash = Some userOpHash, error = None,
                    explorerUrl = Some (getCeloExplorerUrl env userOpHash ''tx'')\<rparr>
           | Inr False \<Rightarrow> Inl receiptError)
      | Inr None \<Rightarrow> Inl (JsError msg_no_hash)
      | Inr (Some hash) \<Rightarrow>
          if hash = [] then Inl (JsError msg_no_hash)
          else Inr \<lparr>success = True, transactionHash = Some hash, error = None,
                    explorerUrl = Some (getCeloExplorerUrl env hash ''tx'')\<rparr>)"

text \<open>\<open>sendUserOperation({calls: [callObject]})\<close> followed by the receipt wait; the second
  component lists the network calls made.\<close>

definition submit ::
  "'a library_scheme \<Rightarrow> KernelAccountClient \<Rightarrow> call
     \<Rightarrow> (thrown + PaymentResult) \<times> event list" where
  "submit env kernelClient callObject =
     (case sendUserOperation kernelClient [callObject] of
        Inl err \<Rightarrow> (Inl err, [SendUserOperation [callObject]])
      | Inr userOpHash \<Rightarrow>
          (awaitReceipt env kernelClient userOpHash,
           [SendUserOperation [callObject], WaitForUserOperationReceipt userOpHash]))"

text \<open>The body of the outer \<open>try\<close> (lines 208--412).\<close>

definition tryBlock ::
  "'a library_scheme \<Rightarrow> KernelAccountClient \<Rightarrow> PaymentParams
     \<Rightarrow> (thrown + PaymentResult) \<times> event list" where
  "tryBlock env kernelClient params =
     (if p_to params = [] \<or> \<not> startsWith (p_to params) ''0x''
         \<or> js_length (p_to params) \<noteq> 42
      then (Inr (failure msg_invalid_address), [])
      else let amt = parseFloat env (amount params)
      in if isNaN amt \<or> le_zero amt
      then (Inr (failure msg_invalid_amount), [])
      else if currency params = CELO
      then (case parseEther env (amount params) of
              Inl err \<Rightarrow> (Inl err, [])
            | Inr amountInWei \<Rightarrow>
                submit env kernelClient
                  \<lparr>call_to = p_to params, call_value = amountInWei, call_data = ''0x''\<rparr>)
      else (case CELO_STABLE_TOKENS env (currency params) of
              None \<Rightarrow> (Inr (failure (msg_not_configured (currency params))), [])
            | Some tokenAddress \<Rightarrow>
                if tokenAddress = []
                then (Inr (failure (msg_not_configured (currency params))), [])
                else (case parseUnits env (amount params) 18 of
                        Inl err \<Rightarrow> (Inl err, [])
                      | Inr amountInWei \<Rightarrow>
                          (case encodeFunctionData env (p_to params) amountInWei of
                             Inl err \<Rightarrow> (Inl err, [])
                           | Inr data \<Rightarrow>
                               submit env kernelClient
                                 \<lparr>call_to = tokenAddress, call_value = 0,
                                  call_data = data\<rparr>))))"

text \<open>
  The outer \<open>catch\<close> (lines 413--457). Nothing encloses it: a \<open>TypeError\<close> raised by
  \<open>isEncodingError(error)\<close> at line 415, or by \<open>errorMessage.toLowerCase()\<close> on a message
  that is not a string, leaves the function (\<open>Inl\<close>) and rejects the promise.
\<close>

definition catchBlock :: "thrown \<Rightarrow> thrown + PaymentResult" where
  "catchBlock err =
     (case isEncodingError err of
        Inl typeError \<Rightarrow> Inl typeError
      | Inr True \<Rightarrow> Inr (failure msg_response_processing)
      | Inr False \<Rightarrow>
          (case err of
             JsErrorNonString tm \<Rightarrow> Inl (JsError tm)
           | _ \<Rightarrow>
             let errorMessage = (case err of JsError m \<Rightarrow> m | _ \<Rightarrow> msg_unknown)
             in if includes_str (toLowerCase errorMessage) ''fund''
                   \<or> includes_str (toLowerCase errorMessage) ''balance''
                   \<or> includes_str (toLowerCase errorMessage) ''insufficient''
                then Inr (failure (funding_guidance errorMessage))
                else if includes_str (toLowerCase errorMessage) ''monthly''
                   \<or> includes_str (toLowerCase errorMessage) ''sponsorship limit''
                   \<or> includes_str (toLowerCase errorMessage) ''billing plan''
                   \<or> includes_str (toLowerCase errorMessage) ''upgrade your billing''
                then Inr (failure msg_pimlico_limit)
                else Inr (failure errorMessage)))"

text \<open>
  The whole function: \<open>Inl\<close> is a rejected promise, \<open>Inr\<close> is the resolved
  \<open>PaymentResult\<close>; the second component is the list of network calls made.
\<close>

definition sendPaymentWithKernel ::
  "'a library_scheme \<Rightarrow> KernelAccountClient \<Rightarrow> PaymentParams
     \<Rightarrow> (thrown + PaymentResult) \<times> event list" where
  "sendPaymentWithKernel env kernelClient params =
     (case tryBlock env kernelClient params of
        (Inr result, calls) \<Rightarrow> (Inr result, calls)
      | (Inl err, calls) \<Rightarrow> (catchBlock err, calls))"

section \<open>The spec's vocabulary\<close>

text \<open>The spec's ``20-byte hex pattern'': \<open>0x\<close> followed by exactly forty hexadecimal
  digits.\<close>

definition is_hex_digit :: "char \<Rightarrow> bool" where
  "is_hex_digit c = (c \<in> set ''0123456789abcdefABCDEF'')"

definition is_hex_address :: "string \<Rightarrow> bool" where
  "is_hex_address s =
     (startsWith s ''0x'' \<and> length s = 42 \<and> list_all is_hex_digit (drop 2 s))"

text \<open>
  Modelled from the spec: viem's \<open>parseUnits\<close> and \<open>parseEther\<close> are not under
  \<open>src/\<close>; the spec describes them as the conversion of the decimal amount to the
  asset's smallest unit. \<open>decimalUnits s d\<close> is that conversion for an unsigned decimal
  numeral with at most \<open>d\<close> fraction digits, and \<open>None\<close> for every other string, about
  which the spec says nothing.
\<close>

definition digitValue :: "char \<Rightarrow> nat option" where
  "digitValue c =
     (let b = (of_char c :: nat) in if 48 \<le> b \<and> b \<le> 57 then Some (b - 48) else None)"

fun digitsValue :: "string \<Rightarrow> nat \<Rightarrow> nat option" where
  "digitsValue [] acc = Some acc"
| "digitsValue (c # cs) acc =
     (case digitValue c of None \<Rightarrow> None | Some d \<Rightarrow> digitsValue cs (10 * acc + d))"

definition decimalUnits :: "string \<Rightarrow> nat \<Rightarrow> int option" where
  "decimalUnits s decimals =
     (let integer = takeWhile (\<lambda>c. c \<noteq> CHR ''.'') s;
          fraction = drop 1 (dropWhile (\<lambda>c. c \<noteq> CHR ''.'') s)
      in if (integer = [] \<and> fraction = []) \<or> decimals < length fraction then None
         else (case (digitsValue integer 0, digitsValue fraction 0) of
                 (Some i, Some f) \<Rightarrow>
                   Some (int (i * 10 ^ decimals + f * 10 ^ (decimals - length fraction)))
               | _ \<Rightarrow> None))"

text \<open>
  Modelled from the spec: viem's \<open>encodeFunctionData\<close> is not under \<open>src/\<close>; the spec
  describes its result as the ABI encoding of a \<open>transfer(address,uint256)\<close> call:
  the selector \<open>a9059cbb\<close>, then the recipient and the amount as two 32-byte words
  in hexadecimal. Defined for a lower-case hexadecimal recipient and an amount that
  fits 256 bits.
\<close>

definition hexChar :: "nat \<Rightarrow> char" where
  "hexChar d = ''0123456789abcdef'' ! (d mod 16)"

fun hexDigits :: "nat \<Rightarrow> nat \<Rightarrow> string" where
  "hexDigits 0 n = []"
| "hexDigits (Suc k) n = hexDigits k (n div 16) @ [hexChar n]"

definition abiTransfer :: "string \<Rightarrow> int \<Rightarrow> string option" where
  "abiTransfer recipient amountInWei =
     (if is_hex_address recipient \<and> toLowerCase recipient = recipient
         \<and> 0 \<le> amountInWei \<and> amountInWei < 2 ^ 256
      then Some (''0xa9059cbb'' @ ''000000000000000000000000'' @ drop 2 recipient
                 @ hexDigits 64 (nat amountInWei))
      else None)"

section \<open>Sample inputs\<close>

text \<open>
  A library to run the model on concrete inputs. \<open>sample_parseFloat\<close> agrees with the
  built-in on the strings it lists (all of them exact doubles) and on \<open>abc\<close>, which is
  not a number, and is used on no other string; the conversions are the spec's, and
  reject what the spec does not describe.
\<close>

definition sample_parseFloat :: "string \<Rightarrow> number" where
  "sample_parseFloat s =
     (if s = ''1'' \<or> s = ''1.0'' then Finite 1
      else if s = ''10.5'' then Finite (21 / 2)
      else if s = ''0'' then Finite 0
      else if s = ''-3'' then Finite (- 3)
      else NaN)"

definition sample_parseUnits :: "string \<Rightarrow> nat \<Rightarrow> thrown + int" where
  "sample_parseUnits s decimals =
     (case decimalUnits s decimals of
        Some v \<Rightarrow> Inr v
      | None \<Rightarrow> Inl (JsError (''Number \"'' @ s @ ''\" is not a valid decimal number.'')))"

definition sample_encodeFunctionData :: "string \<Rightarrow> int \<Rightarrow> thrown + string" where
  "sample_encodeFunctionData recipient amountInWei =
     (case abiTransfer recipient amountInWei of
        Some d \<Rightarrow> Inr d
      | None \<Rightarrow> Inl (JsError (''Address \"'' @ recipient @ ''\" is invalid.'')))"

definition sample_tokens :: "currency \<Rightarrow> string option" where
  "sample_tokens c =
     (if c = cUSD then Some ''0x765de816845861e75a25fca122bb6898b8b1282a'' else None)"

definition sample_library :: library where
  "sample_library =
     \<lparr>parseFloat = sample_parseFloat,
      parseEther = (\<lambda>s. sample_parseUnits s 18),
      parseUnits = sample_parseUnits,
      encodeFunctionData = sample_encodeFunctionData,
      CELO_STABLE_TOKENS = sample_tokens,
      getCeloExplorerUrl = (\<lambda>h kind. ''https://celoscan.io/'' @ kind @ ''/'' @ h)\<rparr>"

definition sample_recipient :: string where
  "sample_recipient = ''0x1111111111111111111111111111111111111111''"

definition sample_params :: "string \<Rightarrow> string \<Rightarrow> currency \<Rightarrow> PaymentParams" where
  "sample_params recipient amt cur =
     \<lparr>p_from = ''0x2222222222222222222222222222222222222222'', p_to = recipient,
      amount = amt, currency = cur\<rparr>"

definition sample_userOpHash :: string where
  "sample_userOpHash = ''0x0c27a87f''"

text \<open>A client that accepts the operation and whose receipt wait ends as given.\<close>

definition client_waiting :: "thrown + string option \<Rightarrow> KernelAccountClient" where
  "client_waiting outcome =
     \<lparr>sendUserOperation = (\<lambda>calls. Inr sample_userOpHash),
      waitForUserOperationReceipt = (\<lambda>h. outcome)\<rparr>"


text \<open>A client that rejects the operation with an \<open>Error\<close> of the given message.\<close>

definition client_rejecting :: "string \<Rightarrow> KernelAccountClient" where
  "client_rejecting msg =
     \<lparr>sendUserOperation = (\<lambda>calls. Inl (JsError msg)),
      waitForUserOperationReceipt = (\<lambda>h. Inr None)\<rparr>"

definition wallet_waap :: WaaPWallet where
  "wallet_waap =
     \<lparr>address = ''0xaaaa'', walletClientType = waap, chainId = ''42220'',
      connected = True\<rparr>"

definition wallet_ext1 :: WaaPWallet where
  "wallet_ext1 =
     \<lparr>address = ''0xbbbb'', walletClientType = external, chainId = ''42220'',
      connected = True\<rparr>"

definition wallet_ext2 :: WaaPWallet where
  "wallet_ext2 =
     \<lparr>address = ''0xcccc'', walletClientType = external, chainId = ''42220'',
      connected = False\<rparr>"

section \<open>Auxiliary facts\<close>

subsection \<open>Searching in strings\<close>

lemma includes_str_Nil: "includes_str [] n = (n = [])"
  by (simp add: includes_str_def)

lemma includes_str_Cons:
  "includes_str (c # cs) n = (prefix n (c # cs) \<or> includes_str cs n)"
  by (simp add: includes_str_def sublist_Cons_right)

lemmas includes_str_eval = includes_str_Nil includes_str_Cons

lemma includes_str_trans:
  "includes_str s n \<Longrightarrow> includes_str n n' \<Longrightarrow> includes_str s n'"
  unfolding includes_str_def by (rule sublist_order.order.trans)

lemma includes_str_lower:
  "includes_str s n \<Longrightarrow> includes_str (toLowerCase s) (toLowerCase n)"
  unfolding includes_str_def toLowerCase_def by (rule map_mono_sublist)

lemma hexDigits_numeral:
  "hexDigits (numeral k) n = hexDigits (pred_numeral k) (n div 16) @ [hexChar n]"
  unfolding numeral_eq_Suc [of k] by (simp only: hexDigits.simps)

lemmas message_defs = msg_invalid_address_def msg_invalid_amount_def msg_not_configured_def
  msg_no_hash_def msg_response_processing_def msg_unknown_def funding_guidance_def
  msg_pimlico_limit_def o_acute_def a_acute_def u_acute_def e_acute_def i_acute_def
  warning_sign_def newline_def

lemmas sample_defs = sample_library_def sample_parseFloat_def sample_parseUnits_def
  sample_encodeFunctionData_def sample_tokens_def sample_recipient_def sample_params_def
  sample_userOpHash_def client_waiting_def client_rejecting_def

lemmas run_defs = sendPaymentWithKernel_def tryBlock_def submit_def awaitReceipt_def
  startsWith_def js_length_def utf16_units_def failure_def

subsection \<open>The shape of a run\<close>

lemma snd_sendPaymentWithKernel:
  "snd (sendPaymentWithKernel env k p) = snd (tryBlock env k p)"
  by (simp add: sendPaymentWithKernel_def split: prod.splits sum.splits)

lemma fst_sendPaymentWithKernel:
  "fst (sendPaymentWithKernel env k p) =
     (case fst (tryBlock env k p) of Inl e \<Rightarrow> catchBlock e | Inr r \<Rightarrow> Inr r)"
  by (simp add: sendPaymentWithKernel_def split: prod.splits sum.splits)

lemma submit_wait:
  assumes "WaitForUserOperationReceipt h \<in> set (snd (submit env k c))"
  shows "sendUserOperation k [c] = Inr h \<and> fst (submit env k c) = awaitReceipt env k h"
  using assms by (auto simp: submit_def split: sum.splits)

lemma tryBlock_shape:
  "snd (tryBlock env k p) = [] \<or> (\<exists>c. tryBlock env k p = submit env k c)"
  by (auto simp: tryBlock_def Let_def split: sum.splits option.splits)

text \<open>A run that waited for the receipt of \<open>h\<close> ends as that wait ends.\<close>

lemma wait_event:
  assumes "WaitForUserOperationReceipt h \<in> set (snd (sendPaymentWithKernel env k p))"
  shows "fst (tryBlock env k p) = awaitReceipt env k h"
proof -
  from assms have w: "WaitForUserOperationReceipt h \<in> set (snd (tryBlock env k p))"
    by (simp add: snd_sendPaymentWithKernel)
  then have "snd (tryBlock env k p) \<noteq> []" by auto
  with tryBlock_shape [of env k p] obtain c where c: "tryBlock env k p = submit env k c"
    by blast
  with w submit_wait [of h env k c] show ?thesis by simp
qed

lemma awaitReceipt_encoding:
  assumes "waitForUserOperationReceipt k h = Inl e" and "isEncodingError e = Inr True"
  shows "awaitReceipt env k h =
           Inr \<lparr>success = True, transactionHash = Some h, error = None,
                explorerUrl = Some (getCeloExplorerUrl env h ''tx'')\<rparr>"
  using assms by (simp add: awaitReceipt_def)

lemma downgraded:
  assumes "WaitForUserOperationReceipt h \<in> set (snd (sendPaymentWithKernel env k p))"
    and "waitForUserOperationReceipt k h = Inl e" and "isEncodingError e = Inr True"
  shows "fst (sendPaymentWithKernel env k p) =
           Inr \<lparr>success = True, transactionHash = Some h, error = None,
                explorerUrl = Some (getCeloExplorerUrl env h ''tx'')\<rparr>"
  using wait_event [OF assms(1)] awaitReceipt_encoding [OF assms(2,3), of env]
  by (simp add: fst_sendPaymentWithKernel)

text \<open>The network calls of a sample CELO payment of amount \<open>1\<close>, whatever the receipt
  wait does.\<close>

lemma sample_run_CELO_trace:
  "snd (sendPaymentWithKernel sample_library (client_waiting outcome)
          (sample_params sample_recipient ''1'' CELO))
   = [SendUserOperation
        [\<lparr>call_to = sample_recipient, call_value = 1000000000000000000,
          call_data = ''0x''\<rparr>],
      WaitForUserOperationReceipt sample_userOpHash]"
  by (simp add: snd_sendPaymentWithKernel tryBlock_def submit_def startsWith_def
      js_length_def utf16_units_def sample_defs decimalUnits_def digitValue_def)

lemma isEncodingError_plain: "plain e \<Longrightarrow> \<exists>b. isEncodingError e = Inr b"
  by (cases e) (auto simp: isEncodingError_def)

lemma catchBlock_cases:
  assumes "plain e"
  shows "catchBlock e = Inr (failure msg_response_processing)
   \<or> catchBlock e
       = Inr (failure (funding_guidance (case e of JsError m \<Rightarrow> m | _ \<Rightarrow> msg_unknown)))
   \<or> catchBlock e = Inr (failure msg_pimlico_limit)
   \<or> catchBlock e = Inr (failure (case e of JsError m \<Rightarrow> m | _ \<Rightarrow> msg_unknown))"
proof -
  from assms obtain b where b: "isEncodingError e = Inr b"
    using isEncodingError_plain by blast
  show ?thesis
  proof (cases b)
    case True
    with b show ?thesis by (simp add: catchBlock_def)
  next
    case False
    with b assms show ?thesis by (cases e) (simp_all add: catchBlock_def Let_def)
  qed
qed

lemma catchBlock_returns: "plain e \<Longrightarrow> \<exists>msg. catchBlock e = Inr (failure msg)"
  using catchBlock_cases [of e] by blast

text \<open>Whatever the outer \<open>catch\<close> returns is a failure.\<close>

lemma catchBlock_result: "catchBlock e = Inr r \<Longrightarrow> \<exists>msg. r = failure msg"
proof (cases "plain e")
  case True
  assume "catchBlock e = Inr r"
  with catchBlock_returns [OF True] show ?thesis by auto
next
  case False
  assume "catchBlock e = Inr r"
  with False show ?thesis
    by (cases e) (simp_all add: catchBlock_def isEncodingError_def)
qed

lemma catchBlock_no_hash: "catchBlock (JsError msg_no_hash) = Inr (failure msg_no_hash)"
  by (simp add: catchBlock_def isEncodingError_def signature_def message_defs
      includes_str_eval toLowerCase_def lower_char_def)

lemma tryBlock_result_shape:
  assumes "fst (tryBlock env k p) = Inr r"
  shows "(\<exists>h. r = \<lparr>success = True, transactionHash = Some h, error = None,
                    explorerUrl = Some (getCeloExplorerUrl env h ''tx'')\<rparr>)
         \<or> (\<exists>msg. r = failure msg)"
    (is "?shape r")
proof -
  have a: "?shape r" if "awaitReceipt env k h = Inr r" for h
    using that
    by (auto simp: awaitReceipt_def split: sum.splits option.splits if_splits bool.splits)
  have s: "?shape r" if "fst (submit env k c) = Inr r" for c
    using that a by (auto simp: submit_def split: sum.splits)
  from tryBlock_shape [of env k p] show ?thesis
  proof
    assume "snd (tryBlock env k p) = []"
    with assms show ?thesis
      by (auto simp: tryBlock_def Let_def submit_def
          split: if_splits sum.splits option.splits)
  next
    assume "\<exists>c. tryBlock env k p = submit env k c"
    with assms s show ?thesis by auto
  qed
qed




lemma submit_trace:
  "\<exists>rest. snd (submit env k c) = SendUserOperation [c] # rest"
  by (simp add: submit_def split: sum.splits)

lemma submit_sends:
  "SendUserOperation calls \<in> set (snd (submit env k c)) \<Longrightarrow> calls = [c]"
  by (auto simp: submit_def split: sum.splits)

lemma hard_failure:
  assumes "WaitForUserOperationReceipt h \<in> set (snd (sendPaymentWithKernel env k p))"
    and "waitForUserOperationReceipt k h = Inl e" and "isEncodingError e = Inr False"
  shows "fst (sendPaymentWithKernel env k p) = catchBlock e"
  using wait_event [OF assms(1)] assms(2,3)
  by (simp add: fst_sendPaymentWithKernel awaitReceipt_def)

lemma lower_literals:
  "toLowerCase ''insufficient funds'' = ''insufficient funds''"
  "toLowerCase ''billing plan'' = ''billing plan''"
  by (simp_all add: toLowerCase_def lower_char_def)

lemma pimlico_not_funding: "msg_pimlico_limit \<noteq> funding_guidance m"
proof
  assume "msg_pimlico_limit = funding_guidance m"
  then have "last msg_pimlico_limit = last (funding_guidance m)" by simp
  then show False by (simp add: message_defs)
qed

lemma sample_not_encoding:
  "isEncodingError (JsError ''insufficient funds for transfer'') = Inr False"
  "isEncodingError (JsError ''You have exceeded your billing plan'') = Inr False"
  "isEncodingError (JsError ''upgrade your billing plan or fund your paymaster'') = Inr False"
  by (simp_all add: isEncodingError_def signature_def includes_str_eval)

lemma abiTransfer_sample:
  "abiTransfer sample_recipient 10500000000000000000
   = Some (''0xa9059cbb''
           @ ''0000000000000000000000001111111111111111111111111111111111111111''
           @ ''00000000000000000000000000000000000000000000000091b77e5e5d9a0000'')"
  by (simp add: abiTransfer_def is_hex_address_def is_hex_digit_def startsWith_def
      sample_recipient_def toLowerCase_def lower_char_def hexDigits_numeral hexChar_def)

subsection \<open>Wallet lists\<close>

lemma find_first:
  "(\<forall>w\<in>set pre. \<not> P w) \<Longrightarrow> P x \<Longrightarrow> find P (pre @ x # post) = Some x"
  by (induction pre) auto

lemma well_typed_nonempty: "well_typed w \<Longrightarrow> address w \<noteq> []"
  by (auto simp: well_typed_def startsWith_def)

section \<open>The claims\<close>

text \<open>
  C1, as amended. When the operation was submitted with identifier \<open>userOpHash\<close> and the
  receipt wait fails with an \<open>Error\<close> whose message contains \<open>invalid codepoint\<close>,
  \<open>sendPaymentWithKernel\<close> resolves to success with \<open>transactionHash\<close> the operation
  identifier and \<open>explorerUrl\<close> built from it by \<open>getCeloExplorerUrl\<close>. The result has no
  \<open>error\<close> text and no other field: it carries no caveat.
\<close>

theorem encoding_error_downgraded:
  assumes "WaitForUserOperationReceipt userOpHash
             \<in> set (snd (sendPaymentWithKernel env kernelClient params))"
    and "waitForUserOperationReceipt kernelClient userOpHash = Inl (JsError m)"
    and "includes_str m ''invalid codepoint''"
  shows "fst (sendPaymentWithKernel env kernelClient params) =
           Inr \<lparr>success = True, transactionHash = Some userOpHash, error = None,
                explorerUrl = Some (getCeloExplorerUrl env userOpHash ''tx'')\<rparr>"
proof -
  from assms(3) have "isEncodingError (JsError m) = Inr True"
    by (simp add: isEncodingError_def signature_def)
  with assms(1,2) show ?thesis by (rule downgraded)
qed

theorem encoding_error_downgraded_witness:
  "fst (sendPaymentWithKernel sample_library
          (client_waiting (Inl (JsError ''invalid codepoint at offset 2'')))
          (sample_params sample_recipient ''1'' CELO))
   = Inr \<lparr>success = True, transactionHash = Some sample_userOpHash, error = None,
          explorerUrl = Some ''https://celoscan.io/tx/0x0c27a87f''\<rparr>"
proof -
  let ?k = "client_waiting (Inl (JsError ''invalid codepoint at offset 2''))"
  have 1: "WaitForUserOperationReceipt sample_userOpHash
             \<in> set (snd (sendPaymentWithKernel sample_library ?k
                          (sample_params sample_recipient ''1'' CELO)))"
    by (simp add: sample_run_CELO_trace)
  have 2: "waitForUserOperationReceipt ?k sample_userOpHash
             = Inl (JsError ''invalid codepoint at offset 2'')"
    by (simp add: client_waiting_def)
  have 3: "includes_str ''invalid codepoint at offset 2'' ''invalid codepoint''"
    by (simp add: includes_str_eval)
  from encoding_error_downgraded [OF 1 2 3] show ?thesis
    by (simp add: sample_library_def sample_userOpHash_def)
qed

text \<open>
  C1 as stated fails: the result of a payment whose receipt wait failed with
  \<open>invalid codepoint\<close> has no error text, and is the very value returned when the
  receipt is found with that hash. Nothing in it advises verification.
\<close>

theorem encoding_error_no_caveat:
  "fst (sendPaymentWithKernel sample_library
          (client_waiting (Inl (JsError ''invalid codepoint at offset 2'')))
          (sample_params sample_recipient ''1'' CELO))
   = Inr \<lparr>success = True, transactionHash = Some ''0x0c27a87f'', error = None,
          explorerUrl = Some ''https://celoscan.io/tx/0x0c27a87f''\<rparr>
   \<and> fst (sendPaymentWithKernel sample_library
          (client_waiting (Inl (JsError ''invalid codepoint at offset 2'')))
          (sample_params sample_recipient ''1'' CELO))
   = fst (sendPaymentWithKernel sample_library
          (client_waiting (Inr (Some ''0x0c27a87f'')))
          (sample_params sample_recipient ''1'' CELO))"
  by (simp add: run_defs sample_defs decimalUnits_def digitValue_def isEncodingError_def
      signature_def includes_str_eval)




text \<open>
  C3, as amended. A recipient that is empty, does not start with \<open>0x\<close> or does not have
  42 code units is refused with the invalid-address message, and no network call is
  made. The check looks at nothing else.
\<close>

theorem malformed_recipient_rejected:
  assumes "p_to params = [] \<or> \<not> startsWith (p_to params) ''0x''
           \<or> js_length (p_to params) \<noteq> 42"
  shows "sendPaymentWithKernel env kernelClient params
           = (Inr (failure msg_invalid_address), [])"
  using assms by (auto simp: sendPaymentWithKernel_def tryBlock_def)

theorem malformed_recipient_rejected_witness:
  "sendPaymentWithKernel sample_library (client_waiting (Inr (Some ''0xfeed'')))
     (sample_params ''0x1234'' ''1'' CELO)
   = (Inr (failure msg_invalid_address), [])"
proof -
  have "js_length (p_to (sample_params ''0x1234'' ''1'' CELO)) \<noteq> 42"
    by (simp add: sample_params_def js_length_def utf16_units_def)
  then have "p_to (sample_params ''0x1234'' ''1'' CELO) = []
           \<or> \<not> startsWith (p_to (sample_params ''0x1234'' ''1'' CELO)) ''0x''
           \<or> js_length (p_to (sample_params ''0x1234'' ''1'' CELO)) \<noteq> 42"
    by blast
  then show ?thesis by (rule malformed_recipient_rejected)
qed

text \<open>
  C3 as stated fails: a recipient of 42 characters that starts with \<open>0x\<close> passes the
  check although it holds no hexadecimal digit, and \<open>sendUserOperation\<close> is invoked
  with it.
\<close>

theorem non_hex_recipient_reaches_network:
  "\<not> is_hex_address ''0xZZZZZZZZZZZZZZZZZZZZZZZZZZZZZZZZZZZZZZZZ''
   \<and> sendPaymentWithKernel sample_library (client_rejecting ''invalid address'')
       (sample_params ''0xZZZZZZZZZZZZZZZZZZZZZZZZZZZZZZZZZZZZZZZZ'' ''1'' CELO)
     = (Inr (failure ''invalid address''),
        [SendUserOperation
           [\<lparr>call_to = ''0xZZZZZZZZZZZZZZZZZZZZZZZZZZZZZZZZZZZZZZZZ'',
             call_value = 1000000000000000000, call_data = ''0x''\<rparr>]])"
proof -
  have 1: "\<not> is_hex_address ''0xZZZZZZZZZZZZZZZZZZZZZZZZZZZZZZZZZZZZZZZZ''"
    by (simp add: is_hex_address_def is_hex_digit_def)
  have 2: "catchBlock (JsError ''invalid address'') = Inr (failure ''invalid address'')"
    by (simp add: catchBlock_def isEncodingError_def signature_def includes_str_eval
        toLowerCase_def lower_char_def)
  have 3: "tryBlock sample_library (client_rejecting ''invalid address'')
       (sample_params ''0xZZZZZZZZZZZZZZZZZZZZZZZZZZZZZZZZZZZZZZZZ'' ''1'' CELO)
     = (Inl (JsError ''invalid address''),
        [SendUserOperation
           [\<lparr>call_to = ''0xZZZZZZZZZZZZZZZZZZZZZZZZZZZZZZZZZZZZZZZZ'',
             call_value = 1000000000000000000, call_data = ''0x''\<rparr>]])"
    by (simp add: tryBlock_def submit_def startsWith_def js_length_def utf16_units_def
        sample_defs decimalUnits_def digitValue_def)
  from 1 2 3 show ?thesis by (simp add: sendPaymentWithKernel_def)
qed

text \<open>
  C4. When \<open>parseFloat\<close> of the amount is \<open>NaN\<close> or at most zero, the payment is refused
  and no network call is made; the message is the invalid-amount one whenever the
  recipient passed the address check, which the source makes first.
\<close>

theorem invalid_amount_rejected:
  assumes "isNaN (parseFloat env (amount params))
           \<or> le_zero (parseFloat env (amount params))"
  shows "snd (sendPaymentWithKernel env kernelClient params) = []
       \<and> (\<exists>msg. fst (sendPaymentWithKernel env kernelClient params) = Inr (failure msg))
       \<and> (p_to params \<noteq> [] \<and> startsWith (p_to params) ''0x''
            \<and> js_length (p_to params) = 42
          \<longrightarrow> fst (sendPaymentWithKernel env kernelClient params)
                = Inr (failure msg_invalid_amount))"
  using assms by (auto simp: sendPaymentWithKernel_def tryBlock_def)

theorem invalid_amount_rejected_witness:
  "sendPaymentWithKernel sample_library (client_waiting (Inr (Some ''0xfeed'')))
     (sample_params sample_recipient ''0'' CELO) = (Inr (failure msg_invalid_amount), [])
   \<and> sendPaymentWithKernel sample_library (client_waiting (Inr (Some ''0xfeed'')))
     (sample_params sample_recipient ''abc'' cUSD) = (Inr (failure msg_invalid_amount), [])
   \<and> sendPaymentWithKernel sample_library (client_waiting (Inr (Some ''0xfeed'')))
     (sample_params sample_recipient ''-3'' cUSD) = (Inr (failure msg_invalid_amount), [])"
proof -
  have ok: "p_to (sample_params sample_recipient a c) \<noteq> []
      \<and> startsWith (p_to (sample_params sample_recipient a c)) ''0x''
      \<and> js_length (p_to (sample_params sample_recipient a c)) = 42" for a c
    by (simp add: sample_params_def sample_recipient_def startsWith_def js_length_def
        utf16_units_def)
  have run: "sendPaymentWithKernel sample_library k (sample_params sample_recipient a c)
             = (Inr (failure msg_invalid_amount), [])"
    if "isNaN (parseFloat sample_library (amount (sample_params sample_recipient a c)))
        \<or> le_zero (parseFloat sample_library (amount (sample_params sample_recipient a c)))"
    for k a c
    using invalid_amount_rejected [OF that, of k] ok [of a c]
    by (simp add: prod_eq_iff)
  have "sendPaymentWithKernel sample_library (client_waiting (Inr (Some ''0xfeed'')))
     (sample_params sample_recipient ''0'' CELO) = (Inr (failure msg_invalid_amount), [])"
    by (rule run) (simp add: sample_library_def sample_parseFloat_def sample_params_def)
  moreover have "sendPaymentWithKernel sample_library (client_waiting (Inr (Some ''0xfeed'')))
     (sample_params sample_recipient ''abc'' cUSD) = (Inr (failure msg_invalid_amount), [])"
    by (rule run) (simp add: sample_library_def sample_parseFloat_def sample_params_def)
  moreover have "sendPaymentWithKernel sample_library (client_waiting (Inr (Some ''0xfeed'')))
     (sample_params sample_recipient ''-3'' cUSD) = (Inr (failure msg_invalid_amount), [])"
    by (rule run) (simp add: sample_library_def sample_parseFloat_def sample_params_def)
  ultimately show ?thesis by simp
qed

text \<open>
  C5. On the token path every \<open>sendUserOperation\<close> receives exactly one call: to the
  configured token address, with native value 0 and with the data
  \<open>encodeFunctionData\<close> returns for the recipient and \<open>parseUnits(amount, 18)\<close>; and that
  call is made whenever validation passes, the token is configured and both library
  calls return. The spec's conversion of \<open>10.5\<close> at 18 decimals is
  \<open>10500000000000000000\<close>.
\<close>

theorem token_call_envelope:
  assumes "currency params \<noteq> CELO"
  shows "(\<forall>calls. SendUserOperation calls
                    \<in> set (snd (sendPaymentWithKernel env kernelClient params))
            \<longrightarrow> (\<exists>tokenAddress amountInWei d.
                   CELO_STABLE_TOKENS env (currency params) = Some tokenAddress
                   \<and> parseUnits env (amount params) 18 = Inr amountInWei
                   \<and> encodeFunctionData env (p_to params) amountInWei = Inr d
                   \<and> calls = [\<lparr>call_to = tokenAddress, call_value = 0,
                                call_data = d\<rparr>]))
       \<and> (\<forall>tokenAddress amountInWei d.
            p_to params \<noteq> [] \<and> startsWith (p_to params) ''0x''
            \<and> js_length (p_to params) = 42
            \<and> \<not> isNaN (parseFloat env (amount params))
            \<and> \<not> le_zero (parseFloat env (amount params))
            \<and> CELO_STABLE_TOKENS env (currency params) = Some tokenAddress
            \<and> tokenAddress \<noteq> []
            \<and> parseUnits env (amount params) 18 = Inr amountInWei
            \<and> encodeFunctionData env (p_to params) amountInWei = Inr d
            \<longrightarrow> (\<exists>rest. snd (sendPaymentWithKernel env kernelClient params)
                          = SendUserOperation
                              [\<lparr>call_to = tokenAddress, call_value = 0,
                                call_data = d\<rparr>] # rest))
       \<and> decimalUnits ''10.5'' 18 = Some 10500000000000000000"
    (is "?every \<and> ?made \<and> ?example")
proof -
  have 1: ?every
    using assms
    by (auto simp: snd_sendPaymentWithKernel tryBlock_def Let_def
        split: if_splits option.splits sum.splits dest: submit_sends)
  have 2: ?made
    using assms submit_trace
    by (auto simp: snd_sendPaymentWithKernel tryBlock_def)
  have 3: ?example
    by (simp add: decimalUnits_def digitValue_def)
  from 1 2 3 show ?thesis by blast
qed

theorem token_call_envelope_witness:
  "snd (sendPaymentWithKernel sample_library (client_rejecting ''paymaster down'')
          (sample_params sample_recipient ''10.5'' cUSD))
   = [SendUserOperation
        [\<lparr>call_to = ''0x765de816845861e75a25fca122bb6898b8b1282a'', call_value = 0,
          call_data = ''0xa9059cbb''
           @ ''0000000000000000000000001111111111111111111111111111111111111111''
           @ ''00000000000000000000000000000000000000000000000091b77e5e5d9a0000''\<rparr>]]"
proof -
  let ?p = "sample_params sample_recipient ''10.5'' cUSD"
  let ?k = "client_rejecting ''paymaster down''"
  let ?c = "\<lparr>call_to = ''0x765de816845861e75a25fca122bb6898b8b1282a'', call_value = 0,
          call_data = ''0xa9059cbb''
           @ ''0000000000000000000000001111111111111111111111111111111111111111''
           @ ''00000000000000000000000000000000000000000000000091b77e5e5d9a0000''\<rparr>"
  have cur: "currency ?p \<noteq> CELO" by (simp add: sample_params_def)
  have units: "parseUnits sample_library (amount ?p) 18 = Inr 10500000000000000000"
    by (simp add: sample_library_def sample_params_def sample_parseUnits_def
        decimalUnits_def digitValue_def)
  have enc: "encodeFunctionData sample_library (p_to ?p) 10500000000000000000
             = Inr (call_data ?c)"
    by (simp add: sample_library_def sample_params_def sample_encodeFunctionData_def
        abiTransfer_sample)
  have pre: "p_to ?p \<noteq> [] \<and> startsWith (p_to ?p) ''0x'' \<and> js_length (p_to ?p) = 42
            \<and> \<not> isNaN (parseFloat sample_library (amount ?p))
            \<and> \<not> le_zero (parseFloat sample_library (amount ?p))
            \<and> CELO_STABLE_TOKENS sample_library (currency ?p)
                = Some ''0x765de816845861e75a25fca122bb6898b8b1282a''
            \<and> ''0x765de816845861e75a25fca122bb6898b8b1282a'' \<noteq> []"
    by (simp add: sample_library_def sample_params_def sample_recipient_def
        sample_parseFloat_def sample_tokens_def startsWith_def js_length_def
        utf16_units_def)
  from token_call_envelope [OF cur, of sample_library ?k, THEN conjunct2, THEN conjunct1,
      rule_format, of "''0x765de816845861e75a25fca122bb6898b8b1282a''"
        10500000000000000000 "call_data ?c"] pre units enc
  obtain rest where rest: "snd (sendPaymentWithKernel sample_library ?k ?p)
                          = SendUserOperation [?c] # rest"
    by auto
  have "length (snd (sendPaymentWithKernel sample_library ?k ?p)) \<le> 1"
    by (auto simp: snd_sendPaymentWithKernel tryBlock_def submit_def client_rejecting_def
        Let_def split: option.splits sum.splits)
  with rest show ?thesis by simp
qed

text \<open>
  C6. On the CELO path every \<open>sendUserOperation\<close> receives exactly one call: to the
  recipient, with native value \<open>parseEther(amount)\<close> and data \<open>0x\<close>; and that call is
  made whenever validation passes and \<open>parseEther\<close> returns. The spec's conversion of
  \<open>1.0\<close> at 18 decimals is \<open>1000000000000000000\<close>.
\<close>

theorem native_call_envelope:
  assumes "currency params = CELO"
  shows "(\<forall>calls. SendUserOperation calls
                    \<in> set (snd (sendPaymentWithKernel env kernelClient params))
            \<longrightarrow> (\<exists>amountInWei.
                   parseEther env (amount params) = Inr amountInWei
                   \<and> calls = [\<lparr>call_to = p_to params, call_value = amountInWei,
                                call_data = ''0x''\<rparr>]))
       \<and> (\<forall>amountInWei.
            p_to params \<noteq> [] \<and> startsWith (p_to params) ''0x''
            \<and> js_length (p_to params) = 42
            \<and> \<not> isNaN (parseFloat env (amount params))
            \<and> \<not> le_zero (parseFloat env (amount params))
            \<and> parseEther env (amount params) = Inr amountInWei
            \<longrightarrow> (\<exists>rest. snd (sendPaymentWithKernel env kernelClient params)
                          = SendUserOperation
                              [\<lparr>call_to = p_to params, call_value = amountInWei,
                                call_data = ''0x''\<rparr>] # rest))
       \<and> decimalUnits ''1.0'' 18 = Some 1000000000000000000"
    (is "?every \<and> ?made \<and> ?example")
proof -
  have 1: ?every
    using assms
    by (auto simp: snd_sendPaymentWithKernel tryBlock_def Let_def
        split: if_splits sum.splits dest: submit_sends)
  have 2: ?made
    using assms submit_trace
    by (auto simp: snd_sendPaymentWithKernel tryBlock_def)
  have 3: ?example
    by (simp add: decimalUnits_def digitValue_def)
  from 1 2 3 show ?thesis by blast
qed

theorem native_call_envelope_witness:
  "snd (sendPaymentWithKernel sample_library (client_waiting (Inr (Some ''0xfeed'')))
          (sample_params sample_recipient ''1.0'' CELO))
   = [SendUserOperation
        [\<lparr>call_to = sample_recipient, call_value = 1000000000000000000,
          call_data = ''0x''\<rparr>],
      WaitForUserOperationReceipt sample_userOpHash]"
proof -
  let ?p = "sample_params sample_recipient ''1.0'' CELO"
  let ?k = "client_waiting (Inr (Some ''0xfeed''))"
  let ?c = "\<lparr>call_to = sample_recipient, call_value = 1000000000000000000,
          call_data = ''0x''\<rparr>"
  have cur: "currency ?p = CELO" by (simp add: sample_params_def)
  have pre: "p_to ?p \<noteq> [] \<and> startsWith (p_to ?p) ''0x'' \<and> js_length (p_to ?p) = 42
            \<and> \<not> isNaN (parseFloat sample_library (amount ?p))
            \<and> \<not> le_zero (parseFloat sample_library (amount ?p))
            \<and> parseEther sample_library (amount ?p) = Inr 1000000000000000000"
    by (simp add: sample_library_def sample_params_def sample_recipient_def
        sample_parseFloat_def sample_parseUnits_def decimalUnits_def digitValue_def
        startsWith_def js_length_def utf16_units_def)
  from native_call_envelope [OF cur, of sample_library ?k, THEN conjunct2, THEN conjunct1,
      rule_format, of 1000000000000000000] pre
  obtain rest where rest: "snd (sendPaymentWithKernel sample_library ?k ?p)
                          = SendUserOperation [?c] # rest"
    by (auto simp: sample_params_def)
  have "\<exists>c. snd (sendPaymentWithKernel sample_library ?k ?p)
          = [SendUserOperation [c], WaitForUserOperationReceipt sample_userOpHash]"
    using pre
    by (simp add: snd_sendPaymentWithKernel tryBlock_def submit_def client_waiting_def
        sample_params_def)
  with rest show ?thesis by auto
qed

text \<open>
  C7, as amended. When the receipt wait fails with an \<open>Error\<close> that is not the encoding
  defect: a message containing \<open>insufficient funds\<close>, or, in any letter case, \<open>fund\<close>,
  \<open>balance\<close> or \<open>insufficient\<close>, gives a failure with the funding guidance appended to
  the message; a message containing \<open>billing plan\<close> (or \<open>monthly\<close>,
  \<open>sponsorship limit\<close>, \<open>upgrade your billing\<close>) and none of the three funding words
  gives a failure with the Pimlico quota guidance, which differs from every funding
  guidance.
\<close>

theorem hard_failure_guidance:
  assumes "WaitForUserOperationReceipt userOpHash
             \<in> set (snd (sendPaymentWithKernel env kernelClient params))"
    and "waitForUserOperationReceipt kernelClient userOpHash = Inl (JsError m)"
    and "isEncodingError (JsError m) = Inr False"
  shows "(includes_str m ''insufficient funds''
          \<or> includes_str (toLowerCase m) ''fund''
          \<or> includes_str (toLowerCase m) ''balance''
          \<or> includes_str (toLowerCase m) ''insufficient''
          \<longrightarrow> fst (sendPaymentWithKernel env kernelClient params)
                = Inr (failure (funding_guidance m)))
       \<and> ((includes_str m ''billing plan''
            \<or> includes_str (toLowerCase m) ''monthly''
            \<or> includes_str (toLowerCase m) ''sponsorship limit''
            \<or> includes_str (toLowerCase m) ''billing plan''
            \<or> includes_str (toLowerCase m) ''upgrade your billing'')
           \<and> \<not> includes_str (toLowerCase m) ''fund''
           \<and> \<not> includes_str (toLowerCase m) ''balance''
           \<and> \<not> includes_str (toLowerCase m) ''insufficient''
          \<longrightarrow> fst (sendPaymentWithKernel env kernelClient params)
                = Inr (failure msg_pimlico_limit))
       \<and> (\<forall>m'. msg_pimlico_limit \<noteq> funding_guidance m')"
proof -
  have run: "fst (sendPaymentWithKernel env kernelClient params) = catchBlock (JsError m)"
    using assms by (rule hard_failure)
  have f: "includes_str (toLowerCase m) ''fund''" if "includes_str m ''insufficient funds''"
  proof -
    from that have "includes_str (toLowerCase m) ''insufficient funds''"
      using includes_str_lower [of m "''insufficient funds''"] by (simp add: lower_literals)
    moreover have "includes_str ''insufficient funds'' ''fund''"
      by (simp add: includes_str_eval)
    ultimately show ?thesis by (rule includes_str_trans)
  qed
  have b: "includes_str (toLowerCase m) ''billing plan''" if "includes_str m ''billing plan''"
    using that includes_str_lower [of m "''billing plan''"] by (simp add: lower_literals)
  from run assms(3) f b pimlico_not_funding show ?thesis
    by (auto simp: catchBlock_def)
qed

theorem hard_failure_guidance_witness:
  "fst (sendPaymentWithKernel sample_library
          (client_waiting (Inl (JsError ''insufficient funds for transfer'')))
          (sample_params sample_recipient ''1'' CELO))
     = Inr (failure (funding_guidance ''insufficient funds for transfer''))
   \<and> fst (sendPaymentWithKernel sample_library
          (client_waiting (Inl (JsError ''You have exceeded your billing plan'')))
          (sample_params sample_recipient ''1'' CELO))
     = Inr (failure msg_pimlico_limit)"
proof -
  let ?p = "sample_params sample_recipient ''1'' CELO"
  have w: "WaitForUserOperationReceipt sample_userOpHash
             \<in> set (snd (sendPaymentWithKernel sample_library (client_waiting outcome) ?p))"
    for outcome
    by (simp add: sample_run_CELO_trace)
  have r: "waitForUserOperationReceipt (client_waiting outcome) sample_userOpHash = outcome"
    for outcome
    by (simp add: client_waiting_def)
  have 1: "includes_str ''insufficient funds for transfer'' ''insufficient funds''"
    by (simp add: includes_str_eval)
  have 2: "includes_str ''You have exceeded your billing plan'' ''billing plan''
           \<and> \<not> includes_str (toLowerCase ''You have exceeded your billing plan'') ''fund''
           \<and> \<not> includes_str (toLowerCase ''You have exceeded your billing plan'') ''balance''
           \<and> \<not> includes_str (toLowerCase ''You have exceeded your billing plan'')
                 ''insufficient''"
    by (simp add: includes_str_eval toLowerCase_def lower_char_def)
  from hard_failure_guidance [OF w r sample_not_encoding(1), THEN conjunct1] 1
  have a: "fst (sendPaymentWithKernel sample_library
          (client_waiting (Inl (JsError ''insufficient funds for transfer''))) ?p)
     = Inr (failure (funding_guidance ''insufficient funds for transfer''))"
    by blast
  from hard_failure_guidance [OF w r sample_not_encoding(2), THEN conjunct2, THEN conjunct1] 2
  have b: "fst (sendPaymentWithKernel sample_library
          (client_waiting (Inl (JsError ''You have exceeded your billing plan''))) ?p)
     = Inr (failure msg_pimlico_limit)"
    by blast
  from a b show ?thesis by simp
qed

text \<open>
  C7 as stated fails: the funding words are tested first, so a message that contains
  \<open>billing plan\<close> and also \<open>fund\<close> gets the funding guidance, not the quota guidance.
\<close>

theorem billing_plan_with_fund_gets_funding_guidance:
  "includes_str ''upgrade your billing plan or fund your paymaster'' ''billing plan''
   \<and> isEncodingError (JsError ''upgrade your billing plan or fund your paymaster'')
       = Inr False
   \<and> fst (sendPaymentWithKernel sample_library
          (client_waiting (Inl (JsError ''upgrade your billing plan or fund your paymaster'')))
          (sample_params sample_recipient ''1'' CELO))
     = Inr (failure (funding_guidance ''upgrade your billing plan or fund your paymaster''))
   \<and> funding_guidance ''upgrade your billing plan or fund your paymaster''
       \<noteq> msg_pimlico_limit"
proof -
  let ?m = "''upgrade your billing plan or fund your paymaster''"
  have 1: "includes_str ?m ''billing plan''" by (simp add: includes_str_eval)
  have 3: "catchBlock (JsError ?m) = Inr (failure (funding_guidance ?m))"
    by (simp add: catchBlock_def isEncodingError_def signature_def includes_str_eval
        toLowerCase_def lower_char_def)
  have "WaitForUserOperationReceipt sample_userOpHash
             \<in> set (snd (sendPaymentWithKernel sample_library (client_waiting (Inl (JsError ?m)))
                  (sample_params sample_recipient ''1'' CELO)))"
    by (simp add: sample_run_CELO_trace)
  moreover have "waitForUserOperationReceipt (client_waiting (Inl (JsError ?m)))
                   sample_userOpHash = Inl (JsError ?m)"
    by (simp add: client_waiting_def)
  ultimately have "fst (sendPaymentWithKernel sample_library (client_waiting (Inl (JsError ?m)))
                  (sample_params sample_recipient ''1'' CELO)) = catchBlock (JsError ?m)"
    using sample_not_encoding(3) by (rule hard_failure)
  moreover have "funding_guidance ?m \<noteq> msg_pimlico_limit"
    using pimlico_not_funding [of ?m] by (rule not_sym)
  ultimately show ?thesis using 1 3 sample_not_encoding(3) by simp
qed

text \<open>
  C8. An \<open>Error\<close> whose message contains \<open>missing continuation byte\<close> or
  \<open>strings/5.7.0\<close> is classified by \<open>isEncodingError\<close>, and when the receipt wait fails
  with it \<open>sendPaymentWithKernel\<close> resolves to success with the operation identifier
  as \<open>transactionHash\<close>.
\<close>

theorem encoding_signatures:
  assumes "includes_str m ''missing continuation byte'' \<or> includes_str m ''strings/5.7.0''"
  shows "isEncodingError (JsError m) = Inr True
       \<and> (WaitForUserOperationReceipt userOpHash
             \<in> set (snd (sendPaymentWithKernel env kernelClient params))
           \<and> waitForUserOperationReceipt kernelClient userOpHash = Inl (JsError m)
          \<longrightarrow> fst (sendPaymentWithKernel env kernelClient params)
                = Inr \<lparr>success = True, transactionHash = Some userOpHash, error = None,
                       explorerUrl = Some (getCeloExplorerUrl env userOpHash ''tx'')\<rparr>)"
proof -
  from assms have e: "isEncodingError (JsError m) = Inr True"
    by (auto simp: isEncodingError_def signature_def)
  then show ?thesis using downgraded [of userOpHash env kernelClient params "JsError m"]
    by blast
qed

theorem encoding_signatures_witness:
  "isEncodingError (JsError ''missing continuation byte at offset 4'') = Inr True
   \<and> isEncodingError (JsError ''code=INVALID_ARGUMENT, version=strings/5.7.0'') = Inr True
   \<and> fst (sendPaymentWithKernel sample_library
          (client_waiting (Inl (JsError ''code=INVALID_ARGUMENT, version=strings/5.7.0'')))
          (sample_params sample_recipient ''1'' CELO))
     = Inr \<lparr>success = True, transactionHash = Some ''0x0c27a87f'', error = None,
            explorerUrl = Some ''https://celoscan.io/tx/0x0c27a87f''\<rparr>"
proof -
  let ?m = "''code=INVALID_ARGUMENT, version=strings/5.7.0''"
  let ?k = "client_waiting (Inl (JsError ?m))"
  let ?p = "sample_params sample_recipient ''1'' CELO"
  have 1: "includes_str ''missing continuation byte at offset 4'' ''missing continuation byte''
           \<or> includes_str ''missing continuation byte at offset 4'' ''strings/5.7.0''"
    by (simp add: includes_str_eval)
  have 2: "includes_str ?m ''missing continuation byte'' \<or> includes_str ?m ''strings/5.7.0''"
    by (simp add: includes_str_eval)
  have "WaitForUserOperationReceipt sample_userOpHash
             \<in> set (snd (sendPaymentWithKernel sample_library ?k ?p))"
    by (simp add: sample_run_CELO_trace)
  moreover have "waitForUserOperationReceipt ?k sample_userOpHash = Inl (JsError ?m)"
    by (simp add: client_waiting_def)
  ultimately have w: "WaitForUserOperationReceipt sample_userOpHash
             \<in> set (snd (sendPaymentWithKernel sample_library ?k ?p))
           \<and> waitForUserOperationReceipt ?k sample_userOpHash = Inl (JsError ?m)"
    by (rule conjI)
  from encoding_signatures [OF 1, of sample_userOpHash sample_library ?k ?p]
  have a: "isEncodingError (JsError ''missing continuation byte at offset 4'') = Inr True"
    by blast
  from encoding_signatures [OF 2, of sample_userOpHash sample_library ?k ?p] w
  have b: "isEncodingError (JsError ?m) = Inr True
     \<and> fst (sendPaymentWithKernel sample_library ?k ?p)
       = Inr \<lparr>success = True, transactionHash = Some sample_userOpHash, error = None,
              explorerUrl = Some (getCeloExplorerUrl sample_library sample_userOpHash ''tx'')\<rparr>"
    by blast
  from a b show ?thesis by (simp add: sample_library_def sample_userOpHash_def)
qed

text \<open>
  C9. When the receipt wait resolves and \<open>receipt?.receipt?.transactionHash\<close> is absent
  (or the empty string), the result is a failure with the non-empty message of line 291;
  and no result of \<open>sendPaymentWithKernel\<close> has \<open>success\<close> true without a
  \<open>transactionHash\<close>.
\<close>

theorem missing_hash_is_failure:
  "(WaitForUserOperationReceipt userOpHash
      \<in> set (snd (sendPaymentWithKernel env kernelClient params))
    \<and> (waitForUserOperationReceipt kernelClient userOpHash = Inr None
       \<or> waitForUserOperationReceipt kernelClient userOpHash = Inr (Some []))
    \<longrightarrow> fst (sendPaymentWithKernel env kernelClient params) = Inr (failure msg_no_hash))
   \<and> msg_no_hash \<noteq> []
   \<and> (\<forall>r. fst (sendPaymentWithKernel env kernelClient params) = Inr r \<and> success r
          \<longrightarrow> transactionHash r \<noteq> None)"
    (is "?absent \<and> ?text \<and> ?hash")
proof -
  have 1: ?absent
  proof
    assume h: "WaitForUserOperationReceipt userOpHash
      \<in> set (snd (sendPaymentWithKernel env kernelClient params))
    \<and> (waitForUserOperationReceipt kernelClient userOpHash = Inr None
       \<or> waitForUserOperationReceipt kernelClient userOpHash = Inr (Some []))"
    then have "fst (tryBlock env kernelClient params)
                 = awaitReceipt env kernelClient userOpHash"
      by (simp add: wait_event)
    moreover from h have "awaitReceipt env kernelClient userOpHash
                 = Inl (JsError msg_no_hash)"
      by (auto simp: awaitReceipt_def)
    ultimately show "fst (sendPaymentWithKernel env kernelClient params)
                       = Inr (failure msg_no_hash)"
      by (simp add: fst_sendPaymentWithKernel catchBlock_no_hash)
  qed
  have 2: ?text by (simp add: msg_no_hash_def)
  have 3: ?hash
  proof (intro allI impI)
    fix r
    assume r: "fst (sendPaymentWithKernel env kernelClient params) = Inr r \<and> success r"
    show "transactionHash r \<noteq> None"
    proof (cases "fst (tryBlock env kernelClient params)")
      case (Inl e)
      with r catchBlock_result [of e] show ?thesis
        by (auto simp: fst_sendPaymentWithKernel failure_def)
    next
      case (Inr r')
      with r tryBlock_result_shape [of env kernelClient params r'] show ?thesis
        by (auto simp: fst_sendPaymentWithKernel failure_def)
    qed
  qed
  from 1 2 3 show ?thesis by blast
qed

theorem missing_hash_is_failure_witness:
  "fst (sendPaymentWithKernel sample_library (client_waiting (Inr None))
          (sample_params sample_recipient ''1'' CELO))
   = Inr \<lparr>success = False, transactionHash = None, error = Some msg_no_hash,
          explorerUrl = None\<rparr>"
proof -
  let ?k = "client_waiting (Inr None)"
  let ?p = "sample_params sample_recipient ''1'' CELO"
  have "WaitForUserOperationReceipt sample_userOpHash
             \<in> set (snd (sendPaymentWithKernel sample_library ?k ?p))"
    by (simp add: sample_run_CELO_trace)
  moreover have "waitForUserOperationReceipt ?k sample_userOpHash = Inr None"
    by (simp add: client_waiting_def)
  ultimately have w: "WaitForUserOperationReceipt sample_userOpHash
             \<in> set (snd (sendPaymentWithKernel sample_library ?k ?p))
           \<and> (waitForUserOperationReceipt ?k sample_userOpHash = Inr None
              \<or> waitForUserOperationReceipt ?k sample_userOpHash = Inr (Some []))"
    by blast
  from missing_hash_is_failure [of sample_userOpHash sample_library ?k ?p] w
  have "fst (sendPaymentWithKernel sample_library ?k ?p) = Inr (failure msg_no_hash)"
    by blast
  then show ?thesis by (simp add: failure_def)
qed

text \<open>
  C10. In a list of wallets (each with an address of type \<open>`0x${string}`\<close>), the first
  \<open>external\<close> wallet is the one \<open>getEOAWallet\<close> returns, and its address the one
  \<open>getEOAAddress\<close> returns, whatever \<open>waap\<close> wallets the list holds; the first \<open>waap\<close>
  wallet is returned when the list has no external wallet; and the result is null
  exactly when the list has neither kind.
\<close>

theorem getEOA_external_first:
  assumes typed: "\<forall>w\<in>set wallets. well_typed w"
  shows "(\<forall>pre ext post.
            wallets = pre @ ext # post
            \<and> (\<forall>w\<in>set pre. walletClientType w \<noteq> external)
            \<and> walletClientType ext = external
            \<longrightarrow> getEOAAddress wallets = Some (address ext)
                \<and> getEOAWallet wallets = Some ext)
       \<and> (\<forall>pre wp post.
            wallets = pre @ wp # post
            \<and> (\<forall>w\<in>set wallets. walletClientType w \<noteq> external)
            \<and> (\<forall>w\<in>set pre. walletClientType w \<noteq> waap)
            \<and> walletClientType wp = waap
            \<longrightarrow> getEOAAddress wallets = Some (address wp)
                \<and> getEOAWallet wallets = Some wp)
       \<and> (getEOAAddress wallets = None
            \<longleftrightarrow> (\<forall>w\<in>set wallets. walletClientType w \<noteq> external
                                    \<and> walletClientType w \<noteq> waap))
       \<and> (getEOAWallet wallets = None
            \<longleftrightarrow> (\<forall>w\<in>set wallets. walletClientType w \<noteq> external
                                    \<and> walletClientType w \<noteq> waap))"
    (is "?ext \<and> ?waap \<and> ?nullA \<and> ?nullW")
proof -
  let ?E = "find (\<lambda>w. walletClientType w = external) wallets"
  let ?W = "find (\<lambda>w. walletClientType w = waap) wallets"
  have addr: "address w \<noteq> []" if "w \<in> set wallets" for w
    using that typed by (auto dest: well_typed_nonempty)
  have found: "has_address (find P wallets) \<longleftrightarrow> find P wallets \<noteq> None" for P
  proof (cases "find P wallets")
    case None
    then show ?thesis by simp
  next
    case (Some w)
    then have "w \<in> set wallets" by (auto simp: find_Some_iff)
    with Some addr show ?thesis by simp
  qed
  have A: "getEOAAddress wallets = map_option address (getEOAWallet wallets)"
    unfolding getEOAAddress_def getEOAWallet_def Let_def found
    by (cases ?E; cases ?W; simp)
  have 1: ?ext
  proof (intro allI impI)
    fix pre ext post
    assume h: "wallets = pre @ ext # post
            \<and> (\<forall>w\<in>set pre. walletClientType w \<noteq> external)
            \<and> walletClientType ext = external"
    then have "?E = Some ext" by (simp add: find_first)
    then have "getEOAWallet wallets = Some ext" by (simp add: getEOAWallet_def)
    with A show "getEOAAddress wallets = Some (address ext)
                \<and> getEOAWallet wallets = Some ext" by simp
  qed
  have 2: ?waap
  proof (intro allI impI)
    fix pre wp post
    assume h: "wallets = pre @ wp # post
            \<and> (\<forall>w\<in>set wallets. walletClientType w \<noteq> external)
            \<and> (\<forall>w\<in>set pre. walletClientType w \<noteq> waap)
            \<and> walletClientType wp = waap"
    then have e: "?E = None" by (auto simp: find_None_iff)
    from h have "?W = Some wp" by (simp add: find_first)
    with e have "getEOAWallet wallets = Some wp" by (simp add: getEOAWallet_def)
    with A show "getEOAAddress wallets = Some (address wp)
                \<and> getEOAWallet wallets = Some wp" by simp
  qed
  have "getEOAWallet wallets = None \<longleftrightarrow> ?E = None \<and> ?W = None"
    by (cases ?E; cases ?W; simp add: getEOAWallet_def)
  then have 4: ?nullW by (auto simp: find_None_iff)
  with A have 3: ?nullA by simp
  from 1 2 3 4 show ?thesis by blast
qed

theorem getEOA_external_first_witness:
  "getEOAAddress [wallet_waap, wallet_ext1, wallet_ext2] = Some ''0xbbbb''
   \<and> getEOAWallet [wallet_waap, wallet_ext1, wallet_ext2] = Some wallet_ext1
   \<and> getEOAAddress [wallet_waap] = Some ''0xaaaa''
   \<and> getEOAAddress [] = None"
proof -
  let ?ws = "[wallet_waap, wallet_ext1, wallet_ext2]"
  have t: "\<forall>w\<in>set ?ws. well_typed w"
    by (simp add: well_typed_def startsWith_def wallet_waap_def wallet_ext1_def
        wallet_ext2_def)
  have t1: "\<forall>w\<in>set [wallet_waap]. well_typed w"
    by (simp add: well_typed_def startsWith_def wallet_waap_def)
  have t0: "\<forall>w\<in>set ([] :: WaaPWallet list). well_typed w" by simp
  have a: "getEOAAddress ?ws = Some ''0xbbbb'' \<and> getEOAWallet ?ws = Some wallet_ext1"
    using getEOA_external_first [OF t, THEN conjunct1, rule_format,
        of "[wallet_waap]" wallet_ext1 "[wallet_ext2]"]
    by (simp add: wallet_waap_def wallet_ext1_def)
  have b: "getEOAAddress [wallet_waap] = Some ''0xaaaa''"
    using getEOA_external_first [OF t1, THEN conjunct2, THEN conjunct1, rule_format,
        of "[]" wallet_waap "[]"]
    by (simp add: wallet_waap_def)
  have c: "getEOAAddress [] = None"
    using getEOA_external_first [OF t0] by simp
  from a b c show ?thesis by (intro conjI) simp_all
qed

end
